theory Spec2Isabelle
  imports Complex_Main "HOL-Library.AList"
begin

section \<open>Python values used by the monitoring backend\<close>

text \<open>
  A Python \<^verbatim>\<open>float\<close> is modelled by the rational number it denotes; every
  arithmetic operation computes the exact result and rounds it to the nearest number
  with a 53-bit significand, ties to even (\<open>fl\<close>). Infinities, NaN and the limits of the
  exponent range are not modelled. A \<^verbatim>\<open>datetime\<close> is a count of microseconds,
  the resolution of the Python type.
\<close>

type_synonym float = rat
type_synonym datetime = int

datatype error =
    ValueError
  | KeyError
  | NameError
  | AttributeError
  | ZeroDivisionError
  | CvError
  | DbError
  | HTTPException nat

fun bit_length :: "nat \<Rightarrow> nat" where
  "bit_length n = (if n = 0 then 0 else Suc (bit_length (n div 2)))"

declare bit_length.simps [simp del]

definition pow2 :: "int \<Rightarrow> rat" where
  "pow2 k = (if 0 \<le> k then 2 ^ nat k else 1 / 2 ^ nat (- k))"

text \<open>The exponent \<open>e\<close> with \<open>2^e \<le> a < 2^(e+1)\<close>, for a positive \<open>a\<close>.\<close>

definition ilog2 :: "rat \<Rightarrow> int" where
  "ilog2 a =
     (if 1 \<le> a then int (bit_length (nat \<lfloor>a\<rfloor>)) - 1
      else - int (bit_length (nat (\<lceil>1 / a\<rceil> - 1))))"

definition round_half_even :: "rat \<Rightarrow> int" where
  "round_half_even y =
     (let f = \<lfloor>y\<rfloor>; r = y - of_int f
      in if r < 1 / 2 then f
         else if 1 / 2 < r then f + 1
         else if even f then f else f + 1)"

definition fl :: "rat \<Rightarrow> float" where
  "fl x =
     (if x = 0 then 0
      else let a = \<bar>x\<bar>;
               s = pow2 (52 - ilog2 a);
               m = round_half_even (a * s)
           in sgn x * of_int m / s)"

definition fadd :: "float \<Rightarrow> float \<Rightarrow> float" where
  "fadd a b = fl (a + b)"

definition fsub :: "float \<Rightarrow> float \<Rightarrow> float" where
  "fsub a b = fl (a - b)"

definition fmul :: "float \<Rightarrow> float \<Rightarrow> float" where
  "fmul a b = fl (a * b)"

text \<open>Python's \<^verbatim>\<open>/\<close>: a zero divisor raises.\<close>

definition truediv :: "rat \<Rightarrow> rat \<Rightarrow> error + float" where
  "truediv a b = (if b = 0 then Inl ZeroDivisionError else Inr (fl (a / b)))"

text \<open>
  \<^verbatim>\<open>round(x, n)\<close> on a float: the exact value is rounded to \<open>n\<close> decimals,
  ties to even, and the decimal result is converted back to the nearest float.
\<close>

definition py_round :: "float \<Rightarrow> nat \<Rightarrow> float" where
  "py_round x n = fl (of_int (round_half_even (x * 10 ^ n)) / 10 ^ n)"

text \<open>
  \<^verbatim>\<open>numpy.mean\<close> of a short list of floats: the elements are added from left to
  right and the sum is divided by the number of elements. On the empty list numpy
  returns NaN; the stabilizer only calls it on the entries of a label that occurs in
  the buffer (lemma \<open>best_entries_nonempty\<close> below).
\<close>

definition np_mean :: "float list \<Rightarrow> float" where
  "np_mean xs = fl (foldl fadd 0 xs / of_nat (length xs))"

text \<open>
  \<^verbatim>\<open>timedelta.total_seconds()\<close>. The stabilizer only compares the result with
  the constants 2.0 and 10, which are floats; rounding to the nearest float is monotone
  and leaves them fixed, so the comparison is made on the exact quotient.
\<close>

definition total_seconds :: "int \<Rightarrow> rat" where
  "total_seconds d = of_int d / 1000000"

text \<open>
  \<^verbatim>\<open>max(xs, key=f)\<close> returns the first element whose key is maximal, and raises
  \<^verbatim>\<open>ValueError\<close> on an empty sequence.
\<close>

fun py_max_by :: "('a \<Rightarrow> 'b::linorder) \<Rightarrow> 'a list \<Rightarrow> 'a option" where
  "py_max_by f [] = None"
| "py_max_by f (x # xs) = Some (foldl (\<lambda>best y. if f best < f y then y else best) x xs)"

section \<open>The emotion stabilizer (face\_analyzer.py)\<close>

text \<open>
  The fields of \<^verbatim>\<open>FEREmotionDetector\<close>. A dictionary is an association list in
  insertion order: \<^verbatim>\<open>max\<close> over a dictionary depends on that order.
\<close>

record stabilizer =
  current_emotion :: string
  emotion_confidence :: float
  last_emotion_change :: datetime
  emotion_buffer :: "(string \<times> float) list"
  frame_count :: int
  ml_available :: bool

text \<open>
  What the environment supplies to one call of \<^verbatim>\<open>detect_emotion\<close>: the reading of
  \<^verbatim>\<open>datetime.now()\<close> (each path of the call reads the clock at most once), the
  outcome of the colour conversion and of \<^verbatim>\<open>detect_emotions\<close> (an exception, or the
  list of faces, each face given by its \<^verbatim>\<open>'emotions'\<close> dictionary), and the two
  random draws of the fallback.
\<close>

datatype fer_outcome = FerRaises | FerResults "(string \<times> float) list list"

record tick =
  clock :: datetime
  fer_result :: fer_outcome
  choice :: string
  uniform :: float

definition init :: "datetime \<Rightarrow> bool \<Rightarrow> stabilizer" where
  "init t0 ml =
     \<lparr>current_emotion = ''neutral'', emotion_confidence = 85,
      last_emotion_change = t0, emotion_buffer = [], frame_count = 0,
      ml_available = ml\<rparr>"

definition fallback_emotion :: "stabilizer \<Rightarrow> tick \<Rightarrow> (string \<times> float) \<times> stabilizer" where
  "fallback_emotion s t =
     (let time_since_change = total_seconds (clock t - last_emotion_change s);
          s' = (if 10 < time_since_change
                then s\<lparr>current_emotion := choice t, emotion_confidence := uniform t,
                       last_emotion_change := clock t\<rparr>
                else s)
      in ((current_emotion s', emotion_confidence s'), s'))"

text \<open>\<^verbatim>\<open>append\<close>, then \<^verbatim>\<open>pop(0)\<close> when the buffer holds more than five entries.\<close>

definition push_buffer :: "(string \<times> float) list \<Rightarrow> string \<times> float \<Rightarrow> (string \<times> float) list" where
  "push_buffer buf e = (let b = buf @ [e] in if 5 < length b then tl b else b)"

text \<open>\<^verbatim>\<open>d.get(k, 0)\<close> and the loop that counts the labels of the buffer.\<close>

definition get0 :: "(string \<times> int) list \<Rightarrow> string \<Rightarrow> int" where
  "get0 d k = (case map_of d k of None \<Rightarrow> 0 | Some c \<Rightarrow> c)"

definition emotion_counts :: "(string \<times> float) list \<Rightarrow> (string \<times> int) list" where
  "emotion_counts buf = foldl (\<lambda>d (emo, conf). AList.update emo (get0 d emo + 1) d) [] buf"

definition best_emotion :: "(string \<times> float) list \<Rightarrow> string option" where
  "best_emotion buf = (let d = emotion_counts buf in py_max_by (get0 d) (map fst d))"

definition avg_confidence :: "(string \<times> float) list \<Rightarrow> string \<Rightarrow> float" where
  "avg_confidence buf best = np_mean (map snd (filter (\<lambda>(emo, conf). emo = best) buf))"

text \<open>The majority vote of lines 61 to 80, run once the buffer holds three entries.\<close>

definition vote :: "stabilizer \<Rightarrow> datetime \<Rightarrow> stabilizer" where
  "vote s current_time =
     (case best_emotion (emotion_buffer s) of
        None \<Rightarrow> s
      | Some best \<Rightarrow>
          let avg = avg_confidence (emotion_buffer s) best;
              time_since_change = total_seconds (current_time - last_emotion_change s)
          in if best \<noteq> current_emotion s
                \<and> 3 \<le> get0 (emotion_counts (emotion_buffer s)) best
                \<and> 2 < time_since_change
                \<and> 60 < avg
             then s\<lparr>current_emotion := best, emotion_confidence := avg,
                    last_emotion_change := current_time\<rparr>
             else s)"

text \<open>
  The instantaneous reading of lines 48 to 50: the first label with the highest score,
  and that score times 100. An empty dictionary makes \<^verbatim>\<open>max\<close> raise.
\<close>

definition dominant :: "(string \<times> float) list \<Rightarrow> error + (string \<times> float)" where
  "dominant emotions =
     (case py_max_by snd emotions of
        None \<Rightarrow> Inl ValueError
      | Some (dominant_emotion, _) \<Rightarrow>
          (case map_of emotions dominant_emotion of
             None \<Rightarrow> Inl KeyError
           | Some score \<Rightarrow> Inr (dominant_emotion, fmul score 100)))"

text \<open>
  Lines 55 to 80: the reading enters the buffer, and the vote runs once the buffer
  holds three entries.
\<close>

definition stabilize :: "stabilizer \<Rightarrow> datetime \<Rightarrow> string \<times> float \<Rightarrow> stabilizer" where
  "stabilize s current_time observation =
     (let s2 = s\<lparr>emotion_buffer := push_buffer (emotion_buffer s) observation\<rparr>
      in if 3 \<le> length (emotion_buffer s2) then vote s2 current_time else s2)"

definition detect_emotion :: "stabilizer \<Rightarrow> tick \<Rightarrow> (string \<times> float) \<times> stabilizer" where
  "detect_emotion s t =
     (let s1 = s\<lparr>frame_count := frame_count s + 1\<rparr>
      in if frame_count s1 mod 3 \<noteq> 0 then ((current_emotion s1, emotion_confidence s1), s1)
         else if \<not> ml_available s1 then fallback_emotion s1 t
         else case fer_result t of
                FerRaises \<Rightarrow> fallback_emotion s1 t
              | FerResults [] \<Rightarrow> fallback_emotion s1 t
              | FerResults (emotions # _) \<Rightarrow>
                  (case dominant emotions of
                     Inl _ \<Rightarrow> fallback_emotion s1 t
                   | Inr observation \<Rightarrow>
                       let s3 = stabilize s1 (clock t) observation
                       in ((current_emotion s3, emotion_confidence s3), s3)))"

text \<open>A sequence of calls: the values returned, in order, and the final state.\<close>

fun run :: "stabilizer \<Rightarrow> tick list \<Rightarrow> (string \<times> float) list \<times> stabilizer" where
  "run s [] = ([], s)"
| "run s (t # ts) =
     (let (out, s') = detect_emotion s t; (outs, s'') = run s' ts in (out # outs, s''))"

section \<open>The analytics aggregator (main.py, get\_analytics)\<close>

text \<open>A row of the table \<^verbatim>\<open>detection_logs\<close>; \<open>is_present\<close> is an integer column.\<close>

record detection_log =
  log_id :: int
  employee_id :: string
  timestamp :: datetime
  is_present :: int
  emotion :: "string option"
  confidence :: "float option"

record analytics =
  total_detections :: int
  presence_percentage :: float
  emotion_distribution :: "(string \<times> int) list"
  working_hours :: float

text \<open>Python's truth value of \<^verbatim>\<open>d.emotion\<close>: neither \<^verbatim>\<open>None\<close> nor the empty string.\<close>

definition truthy :: "string option \<Rightarrow> bool" where
  "truthy e = (case e of None \<Rightarrow> False | Some l \<Rightarrow> l \<noteq> [])"

definition count_present :: "detection_log list \<Rightarrow> int" where
  "count_present detections = int (length (filter (\<lambda>d. is_present d \<noteq> 0) detections))"

definition count_labels :: "detection_log list \<Rightarrow> (string \<times> int) list" where
  "count_labels detections =
     foldl (\<lambda>m d. if truthy (emotion d) \<and> is_present d \<noteq> 0
                    then (case emotion d of
                            None \<Rightarrow> m
                          | Some l \<Rightarrow> AList.update l (get0 m l + 1) m)
                    else m) [] detections"

text \<open>
  The body of \<^verbatim>\<open>get_analytics\<close> on the rows \<open>detections\<close> that the query
  returned. An exception of the body would leave through the \<^verbatim>\<open>finally\<close> clause,
  so it is a result \<open>Inl\<close>.
\<close>

definition get_analytics :: "detection_log list \<Rightarrow> error + analytics" where
  "get_analytics detections =
     (if detections = []
      then Inr \<lparr>total_detections = 0, presence_percentage = 0,
                emotion_distribution = [], working_hours = 0\<rparr>
      else
        let total = int (length detections);
            present_count = count_present detections;
            percentage =
              (if 0 < total
               then (case truediv (of_int present_count) (of_int total) of
                       Inl e \<Rightarrow> Inl e
                     | Inr q \<Rightarrow> Inr (fmul q 100))
               else Inr 0)
        in case percentage of
             Inl e \<Rightarrow> Inl e
           | Inr presence \<Rightarrow>
               (case truediv (fmul (fl (of_int present_count)) (1 / 2)) 60 of
                  Inl e \<Rightarrow> Inl e
                | Inr hours \<Rightarrow>
                    Inr \<lparr>total_detections = total,
                         presence_percentage = py_round presence 2,
                         emotion_distribution = count_labels detections,
                         working_hours = py_round hours 2\<rparr>))"

section \<open>Writing a detection (main.py, create\_detection)\<close>

text \<open>
  The SQLAlchemy session is modelled by the rows the database holds and the rows added
  to the open transaction. Each session call either succeeds or raises, as the
  environment decides; a commit is atomic, so a commit that raises leaves the stored
  rows as they were. \<^verbatim>\<open>rollback\<close> discards the open transaction.
\<close>

record session =
  committed :: "detection_log list"
  pending :: "detection_log list"

record db_outcomes =
  add_ok :: bool
  commit_ok :: bool
  refresh_ok :: bool
  utcnow :: datetime

type_synonym bytes = "nat list"
type_synonym observation = "bytes option \<times> bool \<times> string option \<times> float option"

record detection_response =
  r_id :: int
  r_employee_id :: string
  r_timestamp :: datetime
  r_is_present :: bool
  r_emotion :: "string option"
  r_confidence :: "float option"

definition db_add :: "db_outcomes \<Rightarrow> session \<Rightarrow> detection_log \<Rightarrow> error + session" where
  "db_add env db row =
     (if add_ok env then Inr (db\<lparr>pending := pending db @ [row]\<rparr>) else Inl DbError)"

text \<open>The insert fills the defaults of the row: the next id and the current time.\<close>

fun flush :: "datetime \<Rightarrow> detection_log list \<Rightarrow> detection_log list \<Rightarrow> detection_log list" where
  "flush now rows [] = rows"
| "flush now rows (r # rs) =
     flush now (rows @ [r\<lparr>log_id := int (length rows) + 1, timestamp := now\<rparr>]) rs"

definition db_commit :: "db_outcomes \<Rightarrow> session \<Rightarrow> error + session" where
  "db_commit env db =
     (if commit_ok env
      then Inr \<lparr>committed = flush (utcnow env) (committed db) (pending db), pending = []\<rparr>
      else Inl DbError)"

definition db_refresh :: "db_outcomes \<Rightarrow> session \<Rightarrow> error + detection_log" where
  "db_refresh env db =
     (if refresh_ok env \<and> committed db \<noteq> [] then Inr (last (committed db)) else Inl DbError)"

definition db_rollback :: "session \<Rightarrow> session" where
  "db_rollback db = db\<lparr>pending := []\<rparr>"

text \<open>
  \<^verbatim>\<open>create_detection\<close>, from the tuple that \<^verbatim>\<open>detector.get_frame()\<close>
  returned. \<open>create_detection_try\<close> is the \<^verbatim>\<open>try\<close> block: it yields the
  response, or the exception together with the session as it was when the exception
  was raised. The handler rolls back and raises \<^verbatim>\<open>HTTPException(status_code=500)\<close>.
  The result of \<open>create_detection\<close> pairs what the caller receives with the session
  as the call leaves it.
\<close>

definition create_detection_try ::
  "db_outcomes \<Rightarrow> session \<Rightarrow> string \<Rightarrow> observation \<Rightarrow> (error + detection_response) \<times> session" where
  "create_detection_try env db emp obs =
     (case obs of (frame_bytes, present, emo, conf) \<Rightarrow>
        let detection = \<lparr>log_id = 0, employee_id = emp, timestamp = 0,
                          is_present = (if present then 1 else 0),
                          emotion = emo, confidence = conf\<rparr>
        in case db_add env db detection of
             Inl e \<Rightarrow> (Inl e, db)
           | Inr db1 \<Rightarrow>
               (case db_commit env db1 of
                  Inl e \<Rightarrow> (Inl e, db1)
                | Inr db2 \<Rightarrow>
                    (case db_refresh env db2 of
                       Inl e \<Rightarrow> (Inl e, db2)
                     | Inr d \<Rightarrow>
                         (Inr \<lparr>r_id = log_id d, r_employee_id = employee_id d,
                               r_timestamp = timestamp d,
                               r_is_present = (is_present d \<noteq> 0),
                               r_emotion = emotion d, r_confidence = confidence d\<rparr>,
                          db2))))"

definition create_detection ::
  "db_outcomes \<Rightarrow> session \<Rightarrow> string \<Rightarrow> observation \<Rightarrow> (error + detection_response) \<times> session" where
  "create_detection env db emp obs =
     (case create_detection_try env db emp obs of
        (Inl e, db') \<Rightarrow> (Inl (HTTPException 500), db_rollback db')
      | (Inr response, db') \<Rightarrow> (Inr response, db'))"

section \<open>The presence sampler (main.py, EnhancedEmotionDetector)\<close>

text \<open>
  The attributes of the detector that \<^verbatim>\<open>get_frame\<close> reads or writes. A capture
  handle carries what its status query \<^verbatim>\<open>isOpened()\<close> answers. \<open>face_cascade\<close>
  tells whether the cascade classifier was loaded (otherwise the attribute is
  \<^verbatim>\<open>None\<close>). \<open>persistent\<close> holds \<^verbatim>\<open>persistent_emotion\<close> and
  \<^verbatim>\<open>persistent_confidence\<close>, which are always set together; \<open>None\<close> means
  that the attribute does not exist yet. \<open>analyzer\<close> is the module-level
  \<^verbatim>\<open>face_analyzer\<close>.
\<close>

type_synonym image = "nat list"
type_synonym rect = "int \<times> int \<times> int \<times> int"

record capture =
  cap_index :: nat
  opened :: bool

record detector =
  camera :: "capture option"
  face_cascade :: bool
  persistent :: "(string \<times> float) option"
  last_change_time :: "datetime option"
  analyzer :: stabilizer

text \<open>
  What the environment decides during one call of \<^verbatim>\<open>get_frame\<close>: the two module
  flags, the outcome of every call into OpenCV (a value or an exception), the clock
  readings and the random draws.
\<close>

record world =
  cv_available :: bool
  face_analyzer_available :: bool
  video_capture :: "nat \<Rightarrow> error + capture"
  set_size :: "error + unit"
  cam_read :: "error + bool \<times> image option"
  find_faces :: "image \<Rightarrow> error + rect list"
  draw_box :: "rect \<Rightarrow> error + unit"
  analyzer_tick :: "rect \<Rightarrow> tick"
  gray_stats :: "rect \<Rightarrow> error + float \<times> float"
  clock_init :: datetime
  clock_now :: datetime
  basic_uniform :: float
  basic_random :: float
  basic_adjust :: float
  put_text :: "error + unit"
  imencode :: "image \<Rightarrow> error + bytes"
  demo_random :: float
  demo_choice :: string
  demo_uniform :: float
  demo_render :: "error + bytes"

text \<open>
  The loop over the camera indices 1 to 3 (lines 139 to 142): the exception that ended
  it, if any, and the handle last assigned to \<^verbatim>\<open>self.camera\<close>.
\<close>

fun try_indices :: "world \<Rightarrow> nat list \<Rightarrow> capture \<Rightarrow> error option \<times> capture" where
  "try_indices w [] c = (None, c)"
| "try_indices w (i # is) c =
     (case video_capture w i of
        Inl e \<Rightarrow> (Some e, c)
      | Inr c' \<Rightarrow> if opened c' then (None, c') else try_indices w is c')"

text \<open>
  The \<^verbatim>\<open>try\<close> block of \<^verbatim>\<open>initialize_camera\<close> (lines 136 to 151), entered
  when \<^verbatim>\<open>self.camera\<close> is \<^verbatim>\<open>None\<close>.
\<close>

definition initialize_camera_try :: "detector \<Rightarrow> world \<Rightarrow> (error + bool) \<times> detector" where
  "initialize_camera_try det w =
     (case video_capture w 0 of
        Inl e \<Rightarrow> (Inl e, det)
      | Inr c0 \<Rightarrow>
          (case (if opened c0 then (None, c0) else try_indices w [1, 2, 3] c0) of
             (Some e, c) \<Rightarrow> (Inl e, det\<lparr>camera := Some c\<rparr>)
           | (None, c) \<Rightarrow>
               if opened c
               then (case set_size w of
                       Inl e \<Rightarrow> (Inl e, det\<lparr>camera := Some c\<rparr>)
                     | Inr _ \<Rightarrow> (Inr True, det\<lparr>camera := Some c\<rparr>))
               else (Inr False, det\<lparr>camera := Some c\<rparr>)))"

text \<open>
  \<^verbatim>\<open>initialize_camera\<close>. The handler of line 152 answers \<^verbatim>\<open>False\<close>. The last
  line returns the status of the handle already held; \<^verbatim>\<open>isOpened()\<close> is a status
  query and is total.
\<close>

definition initialize_camera :: "detector \<Rightarrow> world \<Rightarrow> (error + bool) \<times> detector" where
  "initialize_camera det w =
     (if \<not> cv_available w then (Inr False, det)
      else case camera det of
             None \<Rightarrow>
               (case initialize_camera_try det w of
                  (Inl e, det') \<Rightarrow> (Inr False, det')
                | (Inr b, det') \<Rightarrow> (Inr b, det'))
           | Some c \<Rightarrow> (Inr (opened c), det))"

text \<open>The handler of \<^verbatim>\<open>_detect_emotion_basic\<close> (lines 219 to 224).\<close>

definition basic_except :: "detector \<Rightarrow> (string \<times> float) \<times> detector" where
  "basic_except det =
     (case persistent det of
        None \<Rightarrow> ((''neutral'', 85), det\<lparr>persistent := Some (''neutral'', 85)\<rparr>)
      | Some p \<Rightarrow> (p, det))"

text \<open>
  The \<^verbatim>\<open>try\<close> block of \<^verbatim>\<open>_detect_emotion_basic\<close> (lines 171 to 217). Reading
  \<^verbatim>\<open>self.last_change_time\<close> raises when only the handler has set the persistent
  emotion so far.
\<close>

definition basic_try :: "detector \<Rightarrow> world \<Rightarrow> rect \<Rightarrow> (error + string \<times> float) \<times> detector" where
  "basic_try det w roi =
     (case gray_stats w roi of
        Inl e \<Rightarrow> (Inl e, det)
      | Inr (brightness, contrast) \<Rightarrow>
          let det1 = (case persistent det of
                        None \<Rightarrow> det\<lparr>persistent := Some (''neutral'', 85),
                                     last_change_time := Some (clock_init w)\<rparr>
                      | Some _ \<Rightarrow> det)
          in case (persistent det1, last_change_time det1) of
               (Some (persistent_emotion, persistent_confidence), Some changed) \<Rightarrow>
                 let current_time = clock_now w;
                     time_since_change = total_seconds (current_time - changed)
                 in if time_since_change < 2
                    then (Inr (persistent_emotion, persistent_confidence), det1)
                    else
                      let (target_emotion, conf) =
                            (if 160 < brightness \<and> 55 < contrast then (''happy'', basic_uniform w)
                             else if brightness < 80 \<and> contrast < 45 then (''sad'', basic_uniform w)
                             else if 60 < contrast then (''surprise'', basic_uniform w)
                             else if 140 < brightness then (''neutral'', basic_uniform w)
                             else (persistent_emotion, max 75 (fsub persistent_confidence 2)))
                      in if target_emotion \<noteq> persistent_emotion \<and> 80 < conf
                            \<and> fl (3 / 10) < basic_random w
                         then (Inr (target_emotion, conf),
                               det1\<lparr>persistent := Some (target_emotion, conf),
                                    last_change_time := Some current_time\<rparr>)
                         else
                           let adjusted =
                                 max 75 (min 95 (fadd persistent_confidence (basic_adjust w)))
                           in (Inr (persistent_emotion, adjusted),
                               det1\<lparr>persistent := Some (persistent_emotion, adjusted)\<rparr>)
             | _ \<Rightarrow> (Inl AttributeError, det1))"

definition detect_emotion_basic :: "detector \<Rightarrow> world \<Rightarrow> rect \<Rightarrow> (string \<times> float) \<times> detector" where
  "detect_emotion_basic det w roi =
     (case basic_try det w roi of
        (Inl e, det') \<Rightarrow> basic_except det'
      | (Inr r, det') \<Rightarrow> (r, det'))"

text \<open>
  \<^verbatim>\<open>detect_emotion_enhanced\<close>. The stabilizer catches the classifier's exceptions
  itself, so the handler of line 162 is never entered from \<open>detect_emotion\<close>.
\<close>

definition detect_emotion_enhanced :: "detector \<Rightarrow> world \<Rightarrow> rect \<Rightarrow> (string \<times> float) \<times> detector" where
  "detect_emotion_enhanced det w roi =
     (if face_analyzer_available w
      then (case detect_emotion (analyzer det) (analyzer_tick w roi) of
              (r, a) \<Rightarrow> (r, det\<lparr>analyzer := a\<rparr>))
      else detect_emotion_basic det w roi)"

type_synonym detection = "bool \<times> string option \<times> float option \<times> image option"

text \<open>
  The \<^verbatim>\<open>try\<close> block of \<^verbatim>\<open>detect_face_and_emotion\<close> (lines 232 to 264).
  Converting a missing frame raises, and so does calling a cascade that was not loaded.
\<close>

definition detect_face_try :: "detector \<Rightarrow> world \<Rightarrow> image option \<Rightarrow> (error + detection) \<times> detector" where
  "detect_face_try det w frame =
     (case frame of
        None \<Rightarrow> (Inl CvError, det)
      | Some img \<Rightarrow>
          if \<not> face_cascade det then (Inl AttributeError, det)
          else case find_faces w img of
                 Inl e \<Rightarrow> (Inl e, det)
               | Inr faces \<Rightarrow>
                   (case py_max_by (\<lambda>(x, y, width, height). width * height) faces of
                      None \<Rightarrow> (Inr (False, None, None, frame), det)
                    | Some roi \<Rightarrow>
                        (case draw_box w roi of
                           Inl e \<Rightarrow> (Inl e, det)
                         | Inr _ \<Rightarrow>
                             (case detect_emotion_enhanced det w roi of
                                ((emo, conf), det') \<Rightarrow>
                                  (case put_text w of
                                     Inl e \<Rightarrow> (Inl e, det')
                                   | Inr _ \<Rightarrow> (Inr (True, Some emo, Some conf, frame), det'))))))"

definition detect_face_and_emotion :: "detector \<Rightarrow> world \<Rightarrow> image option \<Rightarrow> (error + detection) \<times> detector" where
  "detect_face_and_emotion det w frame =
     (if \<not> cv_available w then (Inr (False, None, None, frame), det)
      else case detect_face_try det w frame of
             (Inl e, det') \<Rightarrow> (Inr (False, None, None, frame), det')
           | (Inr r, det') \<Rightarrow> (Inr r, det'))"

text \<open>
  \<^verbatim>\<open>_get_demo_frame\<close>. The name \<^verbatim>\<open>np\<close> is bound by the second import of the
  block that sets \<^verbatim>\<open>CV_AVAILABLE\<close>, so it is unbound exactly when the flag is false,
  and drawing the demo frame then raises \<^verbatim>\<open>NameError\<close>.
\<close>

definition get_demo_frame :: "world \<Rightarrow> error + observation" where
  "get_demo_frame w =
     (let present = (fl (3 / 10) < demo_random w);
          emo = (if present then Some (demo_choice w) else None);
          conf = (if present then Some (py_round (demo_uniform w) 1) else None)
      in case (if \<not> cv_available w then Inl NameError else demo_render w) of
           Inl e \<Rightarrow> Inr (None, False, None, None)
         | Inr frame_bytes \<Rightarrow> Inr (Some frame_bytes, present, emo, conf))"

text \<open>The \<^verbatim>\<open>try\<close> block of \<^verbatim>\<open>get_frame\<close> (lines 280 to 292).\<close>

definition get_frame_try :: "detector \<Rightarrow> world \<Rightarrow> (error + observation) \<times> detector" where
  "get_frame_try det w =
     (case cam_read w of
        Inl e \<Rightarrow> (Inl e, det)
      | Inr (ret, frame) \<Rightarrow>
          if \<not> ret then (Inr (None, False, None, None), det)
          else case detect_face_and_emotion det w frame of
                 (Inl e, det') \<Rightarrow> (Inl e, det')
               | (Inr (present, emo, conf, processed_frame), det') \<Rightarrow>
                   (case processed_frame of
                      None \<Rightarrow> (Inr (None, False, None, None), det')
                    | Some img \<Rightarrow>
                        (case imencode w img of
                           Inl e \<Rightarrow> (Inl e, det')
                         | Inr frame_bytes \<Rightarrow> (Inr (Some frame_bytes, present, emo, conf), det'))))"

text \<open>
  \<^verbatim>\<open>get_frame\<close>: what the caller receives, a tuple or a propagated exception, and
  the detector as the call leaves it.
\<close>

definition get_frame :: "detector \<Rightarrow> world \<Rightarrow> (error + observation) \<times> detector" where
  "get_frame det w =
     (if \<not> cv_available w then (get_demo_frame w, det)
      else case initialize_camera det w of
             (Inl e, det') \<Rightarrow> (Inl e, det')
           | (Inr False, det') \<Rightarrow> (Inr (None, False, None, None), det')
           | (Inr True, det') \<Rightarrow>
               (case get_frame_try det' w of
                  (Inl e, det'') \<Rightarrow> (Inr (None, False, None, None), det'')
                | (Inr r, det'') \<Rightarrow> (Inr r, det'')))"

text \<open>The data model's condition on a returned tuple.\<close>

definition well_formed :: "observation \<Rightarrow> bool" where
  "well_formed obs =
     (case obs of (frame_bytes, present, emo, conf) \<Rightarrow>
        (emo = None) = (\<not> present) \<and> (conf = None) = (\<not> present))"

section \<open>Auxiliary predicates and sample inputs\<close>

text \<open>
  The calls of \<^verbatim>\<open>detect_emotion\<close> that end in \<^verbatim>\<open>_fallback_emotion\<close>: a
  processed frame for which the model is unavailable, the classifier raises, no face is
  found, or the reading cannot be taken.
\<close>

definition uses_fallback :: "stabilizer \<Rightarrow> tick \<Rightarrow> bool" where
  "uses_fallback s t =
     ((frame_count s + 1) mod 3 = 0
      \<and> (\<not> ml_available s
         \<or> (case fer_result t of
               FerRaises \<Rightarrow> True
             | FerResults [] \<Rightarrow> True
             | FerResults (emotions # _) \<Rightarrow> isl (dominant emotions))))"

text \<open>The shape of what \<^verbatim>\<open>detect_face_and_emotion\<close> returns.\<close>

definition shaped :: "detection \<Rightarrow> bool" where
  "shaped r =
     (case r of (present, emo, conf, frame) \<Rightarrow>
        (emo = None) = (\<not> present) \<and> (conf = None) = (\<not> present))"

text \<open>
  Sample inputs. \<open>happy_face\<close> is a classifier reading with the scores 0.875 and 0.125,
  both exact floats. \<open>warm_up\<close> is eight calls, of which the third and the sixth see
  that reading; \<open>two_happy\<close> is the state they lead to from the initial state.
\<close>

definition tick_at :: "datetime \<Rightarrow> fer_outcome \<Rightarrow> tick" where
  "tick_at c r = \<lparr>clock = c, fer_result = r, choice = ''happy'', uniform = 80\<rparr>"

definition happy_face :: "(string \<times> float) list" where
  "happy_face = [(''happy'', 7 / 8), (''sad'', 1 / 8)]"

definition idle :: "tick list" where
  "idle = [tick_at 0 FerRaises, tick_at 0 FerRaises]"

definition warm_up :: "tick list" where
  "warm_up =
     [tick_at 0 FerRaises, tick_at 0 FerRaises, tick_at 1000000 (FerResults [happy_face]),
      tick_at 0 FerRaises, tick_at 0 FerRaises, tick_at 2000000 (FerResults [happy_face]),
      tick_at 0 FerRaises, tick_at 0 FerRaises]"

definition two_happy :: stabilizer where
  "two_happy =
     \<lparr>current_emotion = ''neutral'', emotion_confidence = 85, last_emotion_change = 0,
      emotion_buffer = [(''happy'', 175 / 2), (''happy'', 175 / 2)], frame_count = 8,
      ml_available = True\<rparr>"

definition full_buffer :: stabilizer where
  "full_buffer =
     \<lparr>current_emotion = ''neutral'', emotion_confidence = 85, last_emotion_change = 0,
      emotion_buffer = [(''sad'', 50), (''happy'', 175 / 2), (''sad'', 50),
                        (''happy'', 175 / 2), (''sad'', 50)],
      frame_count = 17, ml_available = True\<rparr>"

definition event :: "int \<Rightarrow> string option \<Rightarrow> float option \<Rightarrow> detection_log" where
  "event present emo conf =
     \<lparr>log_id = 0, employee_id = ''EMP001'', timestamp = 0, is_present = present,
      emotion = emo, confidence = conf\<rparr>"

definition four_events :: "detection_log list" where
  "four_events =
     [event 1 (Some ''happy'') (Some 90), event 1 (Some ''happy'') (Some 80),
      event 1 (Some ''sad'') (Some 70), event 0 None None]"

definition failing_commit :: db_outcomes where
  "failing_commit = \<lparr>add_ok = True, commit_ok = False, refresh_ok = True, utcnow = 0\<rparr>"

definition empty_session :: session where
  "empty_session = \<lparr>committed = [], pending = []\<rparr>"

section \<open>Properties of the stabilizer\<close>

subsection \<open>Counting and the mode\<close>

lemma get0_update: "get0 (AList.update k v d) e = (if e = k then v else get0 d e)"
  by (simp add: get0_def update_conv')

lemma get0_foldl:
  "get0 (foldl (\<lambda>d (emo, conf). AList.update emo (get0 d emo + 1) d) d0 buf) e
     = get0 d0 e + int (count_list (map fst buf) e)"
  by (induction buf arbitrary: d0) (auto simp: get0_update split: prod.splits)

lemma get0_Nil: "get0 [] e = 0"
  by (simp add: get0_def)

lemma get0_emotion_counts:
  "get0 (emotion_counts buf) e = int (count_list (map fst buf) e)"
  unfolding emotion_counts_def by (simp add: get0_foldl get0_Nil)

lemma keys_update: "fst ` set (AList.update k v d) = insert k (fst ` set d)"
proof -
  have "set (map fst (AList.update k v d)) = insert k (set (map fst d))"
    by (auto simp: update_keys)
  then show ?thesis by simp
qed

lemma keys_foldl:
  "fst ` set (foldl (\<lambda>d (emo, conf). AList.update emo (get0 d emo + 1) d) d0 buf)
     = fst ` set d0 \<union> fst ` set buf"
proof (induction buf arbitrary: d0)
  case Nil
  show ?case by simp
next
  case (Cons p buf)
  obtain emo conf where p: "p = (emo, conf)" by (cases p)
  show ?case
    unfolding p using Cons.IH [of "AList.update emo (get0 d0 emo + 1) d0"]
    by (simp add: keys_update)
qed

lemma keys_emotion_counts: "fst ` set (emotion_counts buf) = fst ` set buf"
  by (simp add: emotion_counts_def keys_foldl)

lemma foldl_max_mem:
  fixes f :: "'a \<Rightarrow> 'b::linorder"
  shows "foldl (\<lambda>best y. if f best < f y then y else best) x xs \<in> set (x # xs)"
  by (induction xs arbitrary: x) auto

lemma foldl_max_ge_start:
  fixes f :: "'a \<Rightarrow> 'b::linorder"
  shows "f x \<le> f (foldl (\<lambda>best y. if f best < f y then y else best) x xs)"
proof (induction xs arbitrary: x)
  case Nil
  show ?case by simp
next
  case (Cons y ys)
  show ?case
    using Cons.IH [of y] Cons.IH [of x] by (auto simp: less_imp_le intro: order_trans)
qed

lemma foldl_max_ge:
  fixes f :: "'a \<Rightarrow> 'b::linorder"
  shows "y \<in> set xs \<Longrightarrow> f y \<le> f (foldl (\<lambda>best y. if f best < f y then y else best) x xs)"
proof (induction xs arbitrary: x)
  case Nil
  then show ?case by simp
next
  case (Cons z zs)
  show ?case
  proof (cases "y = z")
    case True
    show ?thesis
      using foldl_max_ge_start [of f z zs] foldl_max_ge_start [of f x zs] True
      by (auto simp: not_less intro: order_trans)
  next
    case False
    with Cons.prems have "y \<in> set zs" by simp
    then show ?thesis using Cons.IH by simp
  qed
qed

lemma py_max_by_Some:
  fixes f :: "'a \<Rightarrow> 'b::linorder"
  assumes "py_max_by f xs = Some m"
  shows "m \<in> set xs" and "\<And>y. y \<in> set xs \<Longrightarrow> f y \<le> f m"
proof -
  obtain x ys where xs: "xs = x # ys" and m: "m = foldl (\<lambda>best y. if f best < f y then y else best) x ys"
    using assms by (cases xs) auto
  show "m \<in> set xs" unfolding xs m by (rule foldl_max_mem)
  fix y assume "y \<in> set xs"
  then show "f y \<le> f m"
    unfolding xs m using foldl_max_ge_start [of f x ys] foldl_max_ge [of y ys f x] by auto
qed



lemma best_emotion_mode:
  assumes "best_emotion buf = Some best"
  shows "best \<in> fst ` set buf"
    and "count_list (map fst buf) e \<le> count_list (map fst buf) best"
proof -
  let ?d = "emotion_counts buf"
  have m: "py_max_by (get0 ?d) (map fst ?d) = Some best"
    using assms by (simp add: best_emotion_def Let_def)
  have "best \<in> set (map fst ?d)" using py_max_by_Some(1) [OF m] .
  then show mem: "best \<in> fst ` set buf" using keys_emotion_counts [of buf] by simp
  show "count_list (map fst buf) e \<le> count_list (map fst buf) best"
  proof (cases "e \<in> fst ` set buf")
    case True
    then have "e \<in> set (map fst ?d)" using keys_emotion_counts [of buf] by simp
    from py_max_by_Some(2) [OF m this] show ?thesis by (simp add: get0_emotion_counts)
  next
    case False
    then have "count_list (map fst buf) e = 0" by (simp add: count_list_0_iff)
    then show ?thesis by simp
  qed
qed

lemma best_entries_nonempty:
  assumes "best_emotion buf = Some best"
  shows "filter (\<lambda>(emo, conf). emo = best) buf \<noteq> []"
  using best_emotion_mode(1) [OF assms] by (auto simp: filter_empty_conv)

subsection \<open>The paths of one call\<close>

lemma vote_frame [simp]:
  "frame_count (vote s c) = frame_count s"
  "emotion_buffer (vote s c) = emotion_buffer s"
  "ml_available (vote s c) = ml_available s"
  by (simp_all add: vote_def Let_def split: option.splits)

lemma fallback_frame [simp]:
  "frame_count (snd (fallback_emotion s t)) = frame_count s"
  "emotion_buffer (snd (fallback_emotion s t)) = emotion_buffer s"
  "ml_available (snd (fallback_emotion s t)) = ml_available s"
  by (simp_all add: fallback_emotion_def Let_def)

lemma fallback_returns:
  "fst (fallback_emotion s t) =
     (current_emotion (snd (fallback_emotion s t)), emotion_confidence (snd (fallback_emotion s t)))"
  by (simp add: fallback_emotion_def Let_def)

lemma detect_emotion_cases:
  obtains
    (skip) "(frame_count s + 1) mod 3 \<noteq> 0"
      "detect_emotion s t =
         ((current_emotion s, emotion_confidence s), s\<lparr>frame_count := frame_count s + 1\<rparr>)"
  | (fallback) "(frame_count s + 1) mod 3 = 0"
      "detect_emotion s t = fallback_emotion (s\<lparr>frame_count := frame_count s + 1\<rparr>) t"
  | (real) emotions rest obs where "(frame_count s + 1) mod 3 = 0" "ml_available s"
      "fer_result t = FerResults (emotions # rest)" "dominant emotions = Inr obs"
      "detect_emotion s t =
         (let s3 = stabilize (s\<lparr>frame_count := frame_count s + 1\<rparr>) (clock t) obs
          in ((current_emotion s3, emotion_confidence s3), s3))"
proof (cases "(frame_count s + 1) mod 3 \<noteq> 0")
  case True
  then show ?thesis using skip by (simp add: detect_emotion_def Let_def)
next
  case third: False
  show ?thesis
  proof (cases "ml_available s")
    case False
    then show ?thesis using third fallback by (simp add: detect_emotion_def Let_def)
  next
    case ml: True
    show ?thesis
    proof (cases "fer_result t")
      case FerRaises
      then show ?thesis using third ml fallback by (simp add: detect_emotion_def Let_def)
    next
      case (FerResults results)
      show ?thesis
      proof (cases results)
        case Nil
        then show ?thesis
          using third ml FerResults fallback by (simp add: detect_emotion_def Let_def)
      next
        case (Cons emotions rest)
        show ?thesis
        proof (cases "dominant emotions")
          case (Inl e)
          then show ?thesis
            using third ml FerResults Cons fallback by (simp add: detect_emotion_def Let_def)
        next
          case (Inr obs)
          show ?thesis
            by (rule real [of emotions rest obs])
              (use third ml FerResults Cons Inr in \<open>simp_all add: detect_emotion_def Let_def\<close>)
        qed
      qed
    qed
  qed
qed

lemma stabilize_frame [simp]:
  "frame_count (stabilize s c obs) = frame_count s"
  "emotion_buffer (stabilize s c obs) = push_buffer (emotion_buffer s) obs"
  "ml_available (stabilize s c obs) = ml_available s"
  by (simp_all add: stabilize_def Let_def)

lemma detect_emotion_frame_count:
  "frame_count (snd (detect_emotion s t)) = frame_count s + 1"
  by (rule detect_emotion_cases [of s t]) (simp_all add: Let_def)

lemma run_frame_count:
  "frame_count (snd (run s ts)) = frame_count s + int (length ts)"
proof (induction ts arbitrary: s)
  case Nil
  show ?case by simp
next
  case (Cons t ts)
  show ?case
    using Cons.IH [of "snd (detect_emotion s t)"] detect_emotion_frame_count [of s t]
    by (simp add: split_beta Let_def)
qed

lemma length_push_buffer:
  "length (push_buffer buf e) = (if 5 \<le> length buf then length buf else length buf + 1)"
  by (simp add: push_buffer_def Let_def)

lemma push_buffer_full: "length buf = 5 \<Longrightarrow> push_buffer buf e = tl buf @ [e]"
  by (cases buf) (simp_all add: push_buffer_def Let_def)

lemma push_buffer_room: "length buf < 5 \<Longrightarrow> push_buffer buf e = buf @ [e]"
  by (simp add: push_buffer_def Let_def)


lemma detect_emotion_real:
  assumes "(frame_count s + 1) mod 3 = 0" and "ml_available s"
    and "fer_result t = FerResults (emotions # rest)" and "dominant emotions = Inr obs"
  shows "detect_emotion s t =
           (let s3 = stabilize (s\<lparr>frame_count := frame_count s + 1\<rparr>) (clock t) obs
            in ((current_emotion s3, emotion_confidence s3), s3))"
  using assms by (simp add: detect_emotion_def Let_def)

lemma vote_hold: "\<not> 2 < total_seconds (c - last_emotion_change s) \<Longrightarrow> vote s c = s"
  by (simp add: vote_def Let_def split: option.splits)


lemma detect_emotion_buffer_le:
  assumes "length (emotion_buffer s) \<le> 5"
  shows "length (emotion_buffer (snd (detect_emotion s t))) \<le> 5"
  by (rule detect_emotion_cases [of s t]) (use assms in \<open>simp_all add: Let_def length_push_buffer\<close>)

lemma run_buffer_le:
  "length (emotion_buffer s) \<le> 5 \<Longrightarrow> length (emotion_buffer (snd (run s ts))) \<le> 5"
proof (induction ts arbitrary: s)
  case Nil
  then show ?case by simp
next
  case (Cons t ts)
  show ?case
    using Cons.IH [OF detect_emotion_buffer_le [OF Cons.prems, of t]]
    by (simp add: split_beta Let_def)
qed

lemma vote_confidence: "60 < emotion_confidence s \<Longrightarrow> 60 < emotion_confidence (vote s c)"
  by (simp add: vote_def Let_def split: option.splits)

lemma detect_emotion_returns:
  "fst (detect_emotion s t) =
     (current_emotion (snd (detect_emotion s t)), emotion_confidence (snd (detect_emotion s t)))"
  by (rule detect_emotion_cases [of s t]) (simp_all add: Let_def fallback_returns)

lemma detect_emotion_confidence:
  assumes "60 < emotion_confidence s" and "70 \<le> uniform t"
  shows "60 < emotion_confidence (snd (detect_emotion s t))"
proof (rule detect_emotion_cases [of s t])
  assume "detect_emotion s t =
    ((current_emotion s, emotion_confidence s), s\<lparr>frame_count := frame_count s + 1\<rparr>)"
  then show ?thesis using assms by simp
next
  assume "detect_emotion s t = fallback_emotion (s\<lparr>frame_count := frame_count s + 1\<rparr>) t"
  then show ?thesis using assms by (simp add: fallback_emotion_def Let_def)
next
  fix emotions rest obs
  assume "detect_emotion s t =
    (let s3 = stabilize (s\<lparr>frame_count := frame_count s + 1\<rparr>) (clock t) obs
     in ((current_emotion s3, emotion_confidence s3), s3))"
  then show ?thesis using assms by (simp add: stabilize_def Let_def vote_confidence)
qed

lemma run_confidence:
  assumes "60 < emotion_confidence s" and "\<forall>t \<in> set ts. 70 \<le> uniform t \<and> uniform t \<le> 85"
  shows "60 < emotion_confidence (snd (run s ts)) \<and> (\<forall>out \<in> set (fst (run s ts)). 60 < snd out)"
  using assms
proof (induction ts arbitrary: s)
  case Nil
  then show ?case by simp
next
  case (Cons t ts)
  let ?s' = "snd (detect_emotion s t)"
  have inv: "60 < emotion_confidence ?s'"
    using detect_emotion_confidence [of s t] Cons.prems by simp
  have out: "60 < snd (fst (detect_emotion s t))"
    using inv by (simp add: detect_emotion_returns)
  have "\<forall>t \<in> set ts. 70 \<le> uniform t \<and> uniform t \<le> 85" using Cons.prems by simp
  from Cons.IH [OF inv this] out show ?case
    by (simp add: split_beta Let_def)
qed

subsection \<open>The aggregator and the sampler\<close>

lemma truediv_nonzero: "b \<noteq> 0 \<Longrightarrow> truediv a b = Inr (fl (a / b))"
  by (simp add: truediv_def)

lemma initialize_camera_total: "\<exists>b. fst (initialize_camera det w) = Inr b"
  by (auto simp: initialize_camera_def split: option.splits prod.splits sum.splits)

lemma detect_face_try_shaped:
  "fst (detect_face_try det w frame) = Inr r \<Longrightarrow> shaped r"
  by (auto simp: detect_face_try_def shaped_def
      split: option.splits sum.splits prod.splits if_splits)

lemma detect_face_and_emotion_total:
  "\<exists>r. fst (detect_face_and_emotion det w frame) = Inr r \<and> shaped r"
proof (cases "cv_available w")
  case False
  then show ?thesis by (simp add: detect_face_and_emotion_def shaped_def)
next
  case True
  obtain x det' where x: "detect_face_try det w frame = (x, det')"
    by (cases "detect_face_try det w frame")
  show ?thesis
  proof (cases x)
    case (Inl e)
    then show ?thesis using True x by (simp add: detect_face_and_emotion_def shaped_def)
  next
    case (Inr r)
    then have "shaped r" using detect_face_try_shaped [of det w frame r] x by simp
    then show ?thesis using True x Inr by (simp add: detect_face_and_emotion_def)
  qed
qed

lemma get_frame_try_well_formed:
  "fst (get_frame_try det w) = Inr obs \<Longrightarrow> well_formed obs"
proof -
  assume a: "fst (get_frame_try det w) = Inr obs"
  show ?thesis
  proof (cases "cam_read w")
    case (Inl e)
    then show ?thesis using a by (simp add: get_frame_try_def)
  next
    case (Inr p)
    obtain ret frame where p: "p = (ret, frame)" by (cases p)
    show ?thesis
    proof (cases ret)
      case False
      then show ?thesis using a Inr p by (auto simp: get_frame_try_def well_formed_def)
    next
      case True
      obtain r where r: "fst (detect_face_and_emotion det w frame) = Inr r" and sh: "shaped r"
        using detect_face_and_emotion_total [of det w frame] by blast
      obtain det' where d: "detect_face_and_emotion det w frame = (Inr r, det')"
        using r by (cases "detect_face_and_emotion det w frame") simp
      obtain present emo conf processed where rr: "r = (present, emo, conf, processed)"
        by (cases r)
      show ?thesis
        using a Inr p True d rr sh
        by (auto simp: get_frame_try_def well_formed_def shaped_def
            split: option.splits sum.splits)
    qed
  qed
qed

lemma get_demo_frame_well_formed: "\<exists>obs. get_demo_frame w = Inr obs \<and> well_formed obs"
  by (auto simp: get_demo_frame_def well_formed_def Let_def split: sum.splits)

section \<open>The claims\<close>



text \<open>
  C2, as amended. When the buffer holds fewer than three entries after the call (the
  buffer the vote reads), the current emotion is kept, unless the call takes the fallback
  path more than 10 seconds after the last change. The claim as stated fails in two
  ways: from the initial state, a third call that finds no face 11 seconds later takes
  the random label of the fallback although the buffer is empty; and a state with two
  entries in the buffer receives the third vote during the call.
\<close>

theorem insufficient_votes:
  assumes "length (emotion_buffer (snd (detect_emotion s t))) < 3"
    and "\<not> (uses_fallback s t \<and> 10 < total_seconds (clock t - last_emotion_change s))"
  shows "current_emotion (snd (detect_emotion s t)) = current_emotion s"
  using assms
  by (auto simp: detect_emotion_def uses_fallback_def Let_def fallback_emotion_def stabilize_def
      split: fer_outcome.splits list.splits sum.splits if_splits)

theorem insufficient_votes_witness:
  "length (emotion_buffer
      (snd (detect_emotion (snd (run (init 0 True) idle)) (tick_at 3000000 (FerResults [happy_face]))))) < 3
   \<and> \<not> (uses_fallback (snd (run (init 0 True) idle)) (tick_at 3000000 (FerResults [happy_face]))
         \<and> 10 < total_seconds (clock (tick_at 3000000 (FerResults [happy_face]))
                                  - last_emotion_change (snd (run (init 0 True) idle))))
   \<and> (frame_count (snd (run (init 0 True) idle)) + 1) mod 3 = 0
   \<and> emotion_buffer
        (snd (detect_emotion (snd (run (init 0 True) idle)) (tick_at 3000000 (FerResults [happy_face]))))
       = [(''happy'', 175 / 2)]
   \<and> current_emotion
        (snd (detect_emotion (snd (run (init 0 True) idle)) (tick_at 3000000 (FerResults [happy_face]))))
       = current_emotion (snd (run (init 0 True) idle))
   \<and> length (emotion_buffer
      (snd (detect_emotion (snd (run (init 0 True) idle)) (tick_at 9000000 (FerResults []))))) < 3
   \<and> uses_fallback (snd (run (init 0 True) idle)) (tick_at 9000000 (FerResults []))
   \<and> \<not> 10 < total_seconds (clock (tick_at 9000000 (FerResults []))
                               - last_emotion_change (snd (run (init 0 True) idle)))
   \<and> current_emotion
        (snd (detect_emotion (snd (run (init 0 True) idle)) (tick_at 9000000 (FerResults []))))
       = current_emotion (snd (run (init 0 True) idle))"
proof -
  let ?s = "snd (run (init 0 True) idle)"
  let ?t = "tick_at 3000000 (FerResults [happy_face])"
  let ?n = "tick_at 9000000 (FerResults [])"
  have h1: "length (emotion_buffer (snd (detect_emotion ?s ?t))) < 3" by code_simp
  have h2: "\<not> (uses_fallback ?s ?t
         \<and> 10 < total_seconds (clock ?t - last_emotion_change ?s))"
    by code_simp
  have third: "(frame_count ?s + 1) mod 3 = 0" by code_simp
  have buf: "emotion_buffer (snd (detect_emotion ?s ?t)) = [(''happy'', 175 / 2)]" by code_simp
  have g1: "length (emotion_buffer (snd (detect_emotion ?s ?n))) < 3" by code_simp
  have g2: "uses_fallback ?s ?n" by code_simp
  have g3: "\<not> 10 < total_seconds (clock ?n - last_emotion_change ?s)" by code_simp
  from g3 have g4: "\<not> (uses_fallback ?s ?n \<and> 10 < total_seconds (clock ?n - last_emotion_change ?s))"
    by simp
  from insufficient_votes [OF h1 h2] insufficient_votes [OF g1 g4] h1 h2 third buf g1 g2 g3
  show ?thesis by simp
qed

theorem insufficient_votes_counterexample:
  "length (emotion_buffer (snd (run (init 0 True) idle))) < 3
   \<and> current_emotion
        (snd (detect_emotion (snd (run (init 0 True) idle)) (tick_at 11000000 (FerResults []))))
       \<noteq> current_emotion (snd (run (init 0 True) idle))
   \<and> snd (run (init 0 True) warm_up) = two_happy
   \<and> length (emotion_buffer two_happy) < 3
   \<and> current_emotion (snd (detect_emotion two_happy (tick_at 3000000 (FerResults [happy_face]))))
       \<noteq> current_emotion two_happy"
  by code_simp

text \<open>
  C3. A call made less than 2.0 seconds after the last recorded change leaves the
  current emotion, its confidence and the time of the last change as they were, on
  every path.
\<close>

theorem dwell_time:
  assumes "total_seconds (clock t - last_emotion_change s) < 2"
  shows "current_emotion (snd (detect_emotion s t)) = current_emotion s
     \<and> emotion_confidence (snd (detect_emotion s t)) = emotion_confidence s
     \<and> last_emotion_change (snd (detect_emotion s t)) = last_emotion_change s"
proof (rule detect_emotion_cases [of s t])
  assume "detect_emotion s t =
    ((current_emotion s, emotion_confidence s), s\<lparr>frame_count := frame_count s + 1\<rparr>)"
  then show ?thesis by simp
next
  assume "detect_emotion s t = fallback_emotion (s\<lparr>frame_count := frame_count s + 1\<rparr>) t"
  then show ?thesis using assms by (simp add: fallback_emotion_def Let_def)
next
  fix emotions rest obs
  assume "detect_emotion s t =
    (let s3 = stabilize (s\<lparr>frame_count := frame_count s + 1\<rparr>) (clock t) obs
     in ((current_emotion s3, emotion_confidence s3), s3))"
  then show ?thesis using assms by (simp add: stabilize_def Let_def vote_hold)
qed

theorem dwell_time_witness:
  "total_seconds (clock (tick_at 1000000 (FerResults [happy_face]))
                  - last_emotion_change two_happy) < 2
   \<and> current_emotion (snd (detect_emotion two_happy (tick_at 1000000 (FerResults [happy_face]))))
       = current_emotion two_happy
   \<and> emotion_confidence (snd (detect_emotion two_happy (tick_at 1000000 (FerResults [happy_face]))))
       = emotion_confidence two_happy
   \<and> last_emotion_change (snd (detect_emotion two_happy (tick_at 1000000 (FerResults [happy_face]))))
       = last_emotion_change two_happy"
proof -
  have h: "total_seconds (clock (tick_at 1000000 (FerResults [happy_face]))
                  - last_emotion_change two_happy) < 2"
    by code_simp
  from dwell_time [OF h] h show ?thesis by simp
qed

text \<open>
  C4. The invocation counter counts the calls. A call whose number is not a multiple of
  three returns the current pair and changes no field but the counter. A call whose
  number is a multiple of three does the work: it runs the fallback policy when the
  classifier is unavailable or gives no reading, and otherwise it enters the reading
  into the buffer and votes.
\<close>

theorem sampling_throttle:
  "frame_count (snd (run (init t0 ml) ts)) = int (length ts)
   \<and> ((frame_count s + 1) mod 3 \<noteq> 0 \<longrightarrow>
        detect_emotion s t =
          ((current_emotion s, emotion_confidence s), s\<lparr>frame_count := frame_count s + 1\<rparr>))
   \<and> ((frame_count s + 1) mod 3 = 0 \<and> uses_fallback s t \<longrightarrow>
        detect_emotion s t = fallback_emotion (s\<lparr>frame_count := frame_count s + 1\<rparr>) t)
   \<and> ((frame_count s + 1) mod 3 = 0 \<and> ml_available s
        \<and> fer_result t = FerResults (emotions # rest) \<and> dominant emotions = Inr obs \<longrightarrow>
        detect_emotion s t =
          (let s3 = stabilize (s\<lparr>frame_count := frame_count s + 1\<rparr>) (clock t) obs
           in ((current_emotion s3, emotion_confidence s3), s3))
        \<and> emotion_buffer (snd (detect_emotion s t)) = push_buffer (emotion_buffer s) obs)"
proof (intro conjI)
  show "frame_count (snd (run (init t0 ml) ts)) = int (length ts)"
    by (simp add: run_frame_count init_def)
  show "(frame_count s + 1) mod 3 \<noteq> 0 \<longrightarrow>
        detect_emotion s t =
          ((current_emotion s, emotion_confidence s), s\<lparr>frame_count := frame_count s + 1\<rparr>)"
    by (simp add: detect_emotion_def Let_def)
  show "(frame_count s + 1) mod 3 = 0 \<and> uses_fallback s t \<longrightarrow>
        detect_emotion s t = fallback_emotion (s\<lparr>frame_count := frame_count s + 1\<rparr>) t"
    by (auto simp: detect_emotion_def uses_fallback_def Let_def
        split: fer_outcome.splits list.splits sum.splits)
  show "(frame_count s + 1) mod 3 = 0 \<and> ml_available s
        \<and> fer_result t = FerResults (emotions # rest) \<and> dominant emotions = Inr obs \<longrightarrow>
        detect_emotion s t =
          (let s3 = stabilize (s\<lparr>frame_count := frame_count s + 1\<rparr>) (clock t) obs
           in ((current_emotion s3, emotion_confidence s3), s3))
        \<and> emotion_buffer (snd (detect_emotion s t)) = push_buffer (emotion_buffer s) obs"
  proof (intro impI, elim conjE)
    assume a: "(frame_count s + 1) mod 3 = 0" "ml_available s"
      "fer_result t = FerResults (emotions # rest)" "dominant emotions = Inr obs"
    show "detect_emotion s t =
          (let s3 = stabilize (s\<lparr>frame_count := frame_count s + 1\<rparr>) (clock t) obs
           in ((current_emotion s3, emotion_confidence s3), s3))
        \<and> emotion_buffer (snd (detect_emotion s t)) = push_buffer (emotion_buffer s) obs"
      using detect_emotion_real [OF a] by (simp add: Let_def)
  qed
qed

theorem sampling_throttle_witness:
  "(frame_count (init 0 True) + 1) mod 3 \<noteq> 0
   \<and> detect_emotion (init 0 True) (tick_at 0 (FerResults [happy_face]))
       = ((''neutral'', 85), (init 0 True)\<lparr>frame_count := 1\<rparr>)
   \<and> (frame_count (snd (run (init 0 True) idle)) + 1) mod 3 = 0
   \<and> ml_available (snd (run (init 0 True) idle))
   \<and> fer_result (tick_at 3000000 (FerResults [happy_face])) = FerResults (happy_face # [])
   \<and> dominant happy_face = Inr (''happy'', 175 / 2)
   \<and> emotion_buffer
        (snd (detect_emotion (snd (run (init 0 True) idle)) (tick_at 3000000 (FerResults [happy_face]))))
       = [(''happy'', 175 / 2)]
   \<and> (frame_count (snd (run (init 0 True) idle)) + 1) mod 3 = 0
   \<and> uses_fallback (snd (run (init 0 True) idle)) (tick_at 11000000 (FerResults []))
   \<and> fst (detect_emotion (snd (run (init 0 True) idle)) (tick_at 11000000 (FerResults [])))
       = (''happy'', 80)"
proof -
  let ?s = "snd (run (init 0 True) idle)"
  let ?t = "tick_at 3000000 (FerResults [happy_face])"
  let ?n = "tick_at 11000000 (FerResults [])"
  have h: "(frame_count (init 0 True) + 1) mod 3 \<noteq> 0" by (simp add: init_def)
  from sampling_throttle [of 0 True "[]" "init 0 True" "tick_at 0 (FerResults [happy_face])"] h
  have skip: "detect_emotion (init 0 True) (tick_at 0 (FerResults [happy_face])) =
          ((current_emotion (init 0 True), emotion_confidence (init 0 True)),
           (init 0 True)\<lparr>frame_count := frame_count (init 0 True) + 1\<rparr>)"
    by simp
  have h1: "(frame_count ?s + 1) mod 3 = 0" by code_simp
  have h2: "ml_available ?s" by code_simp
  have h3: "fer_result ?t = FerResults (happy_face # [])" by (simp add: tick_at_def)
  have h4: "dominant happy_face = Inr (''happy'', 175 / 2)" by code_simp
  have h5: "uses_fallback ?s ?n" by code_simp
  have pushed: "push_buffer (emotion_buffer ?s) (''happy'', 175 / 2) = [(''happy'', 175 / 2)]"
    by code_simp
  have fb: "fst (fallback_emotion (?s\<lparr>frame_count := frame_count ?s + 1\<rparr>) ?n) = (''happy'', 80)"
    by code_simp
  from sampling_throttle [where s = ?s and t = ?t and emotions = happy_face and rest = "[]"
      and obs = "(''happy'', 175 / 2)" and ts = "[]" and ?t0.0 = 0 and ml = True] h1 h2 h3 h4
  have "emotion_buffer (snd (detect_emotion ?s ?t)) = push_buffer (emotion_buffer ?s) (''happy'', 175 / 2)"
    by blast
  then have third: "emotion_buffer (snd (detect_emotion ?s ?t)) = [(''happy'', 175 / 2)]"
    using pushed by simp
  from sampling_throttle [where s = ?s and t = ?n and emotions = happy_face and rest = "[]"
      and obs = "(''happy'', 175 / 2)" and ts = "[]" and ?t0.0 = 0 and ml = True] h1 h5
  have "detect_emotion ?s ?n = fallback_emotion (?s\<lparr>frame_count := frame_count ?s + 1\<rparr>) ?n"
    by blast
  then have fall: "fst (detect_emotion ?s ?n) = (''happy'', 80)" using fb by simp
  show ?thesis
    using h skip h1 h2 h3 h4 h5 third fall by (simp add: init_def)
qed

text \<open>
  C5. After any sequence of calls from the initial state the buffer holds at most five
  entries; a reading that arrives at a full buffer evicts the oldest entry and goes to
  the end, and a reading that arrives at a shorter buffer is appended.
\<close>

theorem buffer_bounded_fifo:
  "length (emotion_buffer (snd (run (init t0 ml) ts))) \<le> 5
   \<and> ((frame_count s + 1) mod 3 = 0 \<and> ml_available s
        \<and> fer_result t = FerResults (emotions # rest) \<and> dominant emotions = Inr obs
      \<longrightarrow> (length (emotion_buffer s) = 5
             \<longrightarrow> emotion_buffer (snd (detect_emotion s t)) = tl (emotion_buffer s) @ [obs])
          \<and> (length (emotion_buffer s) < 5
             \<longrightarrow> emotion_buffer (snd (detect_emotion s t)) = emotion_buffer s @ [obs]))"
proof
  show "length (emotion_buffer (snd (run (init t0 ml) ts))) \<le> 5"
    by (rule run_buffer_le) (simp add: init_def)
  show "(frame_count s + 1) mod 3 = 0 \<and> ml_available s
        \<and> fer_result t = FerResults (emotions # rest) \<and> dominant emotions = Inr obs
      \<longrightarrow> (length (emotion_buffer s) = 5
             \<longrightarrow> emotion_buffer (snd (detect_emotion s t)) = tl (emotion_buffer s) @ [obs])
          \<and> (length (emotion_buffer s) < 5
             \<longrightarrow> emotion_buffer (snd (detect_emotion s t)) = emotion_buffer s @ [obs])"
  proof (intro impI, elim conjE)
    assume a: "(frame_count s + 1) mod 3 = 0" "ml_available s"
      "fer_result t = FerResults (emotions # rest)" "dominant emotions = Inr obs"
    have "emotion_buffer (snd (detect_emotion s t)) = push_buffer (emotion_buffer s) obs"
      using detect_emotion_real [OF a] by (simp add: Let_def)
    then show "(length (emotion_buffer s) = 5
             \<longrightarrow> emotion_buffer (snd (detect_emotion s t)) = tl (emotion_buffer s) @ [obs])
          \<and> (length (emotion_buffer s) < 5
             \<longrightarrow> emotion_buffer (snd (detect_emotion s t)) = emotion_buffer s @ [obs])"
      by (simp add: push_buffer_full push_buffer_room)
  qed
qed

theorem buffer_bounded_fifo_witness:
  "(frame_count full_buffer + 1) mod 3 = 0 \<and> ml_available full_buffer
   \<and> fer_result (tick_at 3000000 (FerResults [happy_face])) = FerResults (happy_face # [])
   \<and> dominant happy_face = Inr (''happy'', 175 / 2)
   \<and> length (emotion_buffer full_buffer) = 5
   \<and> emotion_buffer (snd (detect_emotion full_buffer (tick_at 3000000 (FerResults [happy_face]))))
       = tl (emotion_buffer full_buffer) @ [(''happy'', 175 / 2)]"
proof -
  let ?t = "tick_at 3000000 (FerResults [happy_face])"
  have h1: "(frame_count full_buffer + 1) mod 3 = 0" by (simp add: full_buffer_def)
  have h2: "ml_available full_buffer" by (simp add: full_buffer_def)
  have h3: "fer_result ?t = FerResults (happy_face # [])" by (simp add: tick_at_def)
  have h4: "dominant happy_face = Inr (''happy'', 175 / 2)" by code_simp
  have h5: "length (emotion_buffer full_buffer) = 5" by (simp add: full_buffer_def)
  from buffer_bounded_fifo [where s = full_buffer and t = ?t and emotions = happy_face
      and rest = "[]" and obs = "(''happy'', 175 / 2)" and ts = "[]" and ?t0.0 = 0 and ml = True]
    h1 h2 h3 h4 h5
  have "emotion_buffer (snd (detect_emotion full_buffer ?t))
          = tl (emotion_buffer full_buffer) @ [(''happy'', 175 / 2)]"
    by simp
  with h1 h2 h3 h4 h5 show ?thesis by simp
qed

text \<open>
  C6. On no rows the aggregator returns zero detections, presence 0.0, an empty
  distribution and 0.0 working hours; and on no input does it raise, so the division by
  the number of rows is never a division by zero.
\<close>

theorem aggregate_empty:
  "get_analytics [] =
     Inr \<lparr>total_detections = 0, presence_percentage = 0, emotion_distribution = [],
          working_hours = 0\<rparr>
   \<and> \<not> isl (get_analytics detections)"
proof
  show "get_analytics [] =
     Inr \<lparr>total_detections = 0, presence_percentage = 0, emotion_distribution = [],
          working_hours = 0\<rparr>"
    by (simp add: get_analytics_def)
  show "\<not> isl (get_analytics detections)"
    by (cases detections) (simp_all add: get_analytics_def Let_def truediv_nonzero)
qed

text \<open>
  C7, as amended. On the four events present/happy, present/happy, present/sad, absent
  the aggregator returns presence 75.0, the distribution happy 2, sad 1, and working
  hours 0.03: the value 3 * 0.5 / 60 = 0.025 is rounded to two decimals before it is
  returned. The float nearest to 0.025 lies above 0.025, so the rounding goes up.
\<close>

theorem aggregate_four_events:
  "get_analytics four_events =
     Inr \<lparr>total_detections = 4, presence_percentage = 75,
          emotion_distribution = [(''happy'', 2), (''sad'', 1)],
          working_hours = fl (3 / 100)\<rparr>"
  by code_simp

theorem aggregate_four_events_counterexample:
  "get_analytics four_events =
     Inr \<lparr>total_detections = 4, presence_percentage = 75,
          emotion_distribution = [(''happy'', 2), (''sad'', 1)],
          working_hours = 1080863910568919 / 36028797018963968\<rparr>
   \<and> (1080863910568919 / 36028797018963968 :: rat) \<noteq> 25 / 1000
   \<and> (1080863910568919 / 36028797018963968 :: rat) \<noteq> fl (25 / 1000)"
  by code_simp

text \<open>
  C8. \<^verbatim>\<open>get_frame\<close> always returns a tuple and never an exception, and in the tuple
  the emotion and the confidence are missing exactly when no presence is reported.
\<close>

theorem get_frame_well_formed:
  "\<exists>obs. fst (get_frame det w) = Inr obs \<and> well_formed obs"
proof (cases "cv_available w")
  case False
  then show ?thesis using get_demo_frame_well_formed [of w] by (simp add: get_frame_def)
next
  case True
  obtain b where b: "fst (initialize_camera det w) = Inr b"
    using initialize_camera_total by blast
  obtain det' where d: "initialize_camera det w = (Inr b, det')"
    using b by (cases "initialize_camera det w") simp
  show ?thesis
  proof (cases b)
    case False
    then show ?thesis using True d by (simp add: get_frame_def well_formed_def)
  next
    case opened: True
    obtain x det'' where x: "get_frame_try det' w = (x, det'')"
      by (cases "get_frame_try det' w")
    show ?thesis
    proof (cases x)
      case (Inl e)
      then show ?thesis using True d opened x by (simp add: get_frame_def well_formed_def)
    next
      case (Inr obs)
      then have "well_formed obs" using get_frame_try_well_formed [of det' w obs] x by simp
      then show ?thesis using True d opened x Inr by (simp add: get_frame_def)
    qed
  qed
qed

text \<open>
  C9. When adding the row or committing fails, the caller receives the exception
  \<^verbatim>\<open>HTTPException(500)\<close>, the stored rows are what they were, and the open
  transaction is discarded.
\<close>

theorem write_failure_surfaced:
  assumes "\<not> add_ok env \<or> \<not> commit_ok env"
  shows "fst (create_detection env db emp obs) = Inl (HTTPException 500)
     \<and> committed (snd (create_detection env db emp obs)) = committed db
     \<and> pending (snd (create_detection env db emp obs)) = []"
  using assms
  by (cases obs)
    (auto simp: create_detection_def create_detection_try_def db_add_def db_commit_def
      db_rollback_def Let_def)

theorem write_failure_surfaced_witness:
  "\<not> commit_ok failing_commit
   \<and> fst (create_detection failing_commit empty_session ''EMP001''
             (None, True, Some ''happy'', Some 90)) = Inl (HTTPException 500)
   \<and> committed (snd (create_detection failing_commit empty_session ''EMP001''
             (None, True, Some ''happy'', Some 90))) = committed empty_session
   \<and> pending (snd (create_detection failing_commit empty_session ''EMP001''
             (None, True, Some ''happy'', Some 90))) = []"
proof -
  have c: "\<not> commit_ok failing_commit"
    by (simp add: failing_commit_def)
  then have h: "\<not> add_ok failing_commit \<or> \<not> commit_ok failing_commit"
    by simp
  from write_failure_surfaced [OF h] c show ?thesis by simp
qed

text \<open>
  C10. If every fallback draw of the confidence lies between 70 and 85, then after any
  sequence of calls from the initial state the current confidence exceeds 60, and so
  does every confidence that a call returned.
\<close>

theorem confidence_above_threshold:
  assumes "\<forall>t \<in> set ts. 70 \<le> uniform t \<and> uniform t \<le> 85"
  shows "60 < emotion_confidence (snd (run (init t0 ml) ts))
     \<and> (\<forall>out \<in> set (fst (run (init t0 ml) ts)). 60 < snd out)"
  by (rule run_confidence [OF _ assms]) (simp add: init_def)

theorem confidence_above_threshold_witness:
  "70 \<le> uniform (tick_at 0 FerRaises) \<and> uniform (tick_at 0 FerRaises) \<le> 85
   \<and> 70 \<le> uniform (tick_at 11000000 FerRaises) \<and> uniform (tick_at 11000000 FerRaises) \<le> 85
   \<and> 60 < emotion_confidence
        (snd (run (init 0 True)
               [tick_at 0 FerRaises, tick_at 0 FerRaises, tick_at 11000000 FerRaises]))"
proof -
  have u: "70 \<le> uniform (tick_at 0 FerRaises) \<and> uniform (tick_at 0 FerRaises) \<le> 85
      \<and> 70 \<le> uniform (tick_at 11000000 FerRaises) \<and> uniform (tick_at 11000000 FerRaises) \<le> 85"
    by (simp add: tick_at_def)
  then have h: "\<forall>t \<in> set [tick_at 0 FerRaises, tick_at 0 FerRaises, tick_at 11000000 FerRaises].
       70 \<le> uniform t \<and> uniform t \<le> 85"
    by simp
  from confidence_above_threshold [OF h, of 0 True] u show ?thesis by simp
qed

end
